theory Spec2Isabelle
  imports Main "HOL-Library.Sublist"
begin

section \<open>The lint-and-format driver \<^verbatim>\<open>helpitnotsuck.py\<close>\<close>

text \<open>
  The script sequences four external tools (pylint, autoflake, isort, black) over one
  file or over every \<^verbatim>\<open>.py\<close> file of a directory tree. The embedding below follows
  the source function by function: \<^verbatim>\<open>run_pylint\<close>, \<^verbatim>\<open>prompt_for_docstring\<close>,
  \<^verbatim>\<open>process_file\<close>, \<^verbatim>\<open>process_directory\<close> and \<^verbatim>\<open>main\<close>.

  \<^item> The file system, the operator's input lines and everything the script does with the
    outside are an explicit state (\<open>world\<close>), passed through every call.
  \<^item> An exception is a value: every procedure returns \<open>Inl e\<close> (the exception \<open>e\<close>
    escaped) or \<open>Inr v\<close> (it returned \<open>v\<close>), together with the state it left behind.
    Nothing is rolled back when an exception escapes.
  \<^item> The four tools are not part of the repository; they are parameters (\<open>tools\<close>), each
    of which may return a value or raise.
  \<^item> Text is a \<open>string\<close>, one \<open>char\<close> per code point below 256. A file holds its
    decoded text with the line ends it has on disk; reading in text mode translates them
    (\<open>universal_newlines\<close>), writing on POSIX does not. Encodings are below this model.
\<close>

subsection \<open>Strings\<close>

text \<open>\<^verbatim>\<open>str.isspace\<close> on the code points below 256.\<close>

definition isspace :: "char \<Rightarrow> bool" where
  "isspace c = (of_char c \<in> {9, 10, 11, 12, 13, 28, 29, 30, 31, 32, 133, 160 :: nat})"

definition lstrip :: "string \<Rightarrow> string" where
  "lstrip s = dropWhile isspace s"

definition rstrip :: "string \<Rightarrow> string" where
  "rstrip s = rev (dropWhile isspace (rev s))"

definition strip :: "string \<Rightarrow> string" where
  "strip s = rstrip (lstrip s)"

definition startswith :: "string \<Rightarrow> string \<Rightarrow> bool" where
  "startswith s pre = (take (length pre) s = pre)"

definition endswith :: "string \<Rightarrow> string \<Rightarrow> bool" where
  "endswith s suf = (length suf \<le> length s \<and> drop (length s - length suf) s = suf)"

text \<open>
  What a file opened with \<^verbatim>\<open>open(p, "r")\<close> (no \<^verbatim>\<open>newline\<close> argument) hands to
  \<^verbatim>\<open>read()\<close>: every carriage return followed by a line feed, and every other carriage
  return, has become one line feed.
\<close>

fun universal_newlines :: "string \<Rightarrow> string" where
  "universal_newlines [] = []"
| "universal_newlines [c] = [if c = CHR 0x0D then CHR 0x0A else c]"
| "universal_newlines (c # d # cs) =
     (if c = CHR 0x0D \<and> d = CHR 0x0A then CHR 0x0A # universal_newlines cs
      else if c = CHR 0x0D then CHR 0x0A # universal_newlines (d # cs)
      else c # universal_newlines (d # cs))"

text \<open>\<^verbatim>\<open>os.path.join\<close> of two components (POSIX).\<close>

definition path_join :: "string \<Rightarrow> string \<Rightarrow> string" where
  "path_join a b =
     (if startswith b ''/'' then b
      else if a = [] \<or> endswith a ''/'' then a @ b
      else a @ ''/'' @ b)"

subsection \<open>The outside world\<close>

type_synonym path = string
type_synonym content = string

text \<open>
  A directory as \<^verbatim>\<open>os.walk\<close> sees it: the names of its non-directory entries, and its
  subdirectories by name.
\<close>

datatype dirtree = DirTree "string list" "(string \<times> dirtree) list"

text \<open>
  What the run does, in order. \<open>Print\<close>: one call of \<^verbatim>\<open>print\<close>. \<open>Input\<close>: one call
  of \<^verbatim>\<open>input()\<close> and the line it returned. \<open>Read\<close> and \<open>Write\<close>: the script's own
  \<^verbatim>\<open>open(p, "r").read()\<close> and \<^verbatim>\<open>open(p, "w").write(c)\<close>. The other four are the calls of
  the tools; \<open>Pylint p\<close> and \<open>Isort p\<close> access the file \<open>p\<close> themselves.
\<close>

datatype event =
    Print string
  | Input string
  | Read path
  | Write path content
  | Pylint path
  | Autoflake
  | Isort path
  | Black

datatype exn =
    SystemExit nat
  | FileNotFoundError path
  | EOFError
  | InvalidInput
  | ToolError string

text \<open>
  \<open>files\<close>: the regular files that can be read as text, with their text as it is on
  disk. \<open>dirs\<close>: the directories. \<open>stdin\<close>: the lines the operator will type.
  \<open>log\<close>: the events so far, oldest first.
\<close>

record world =
  files :: "path \<rightharpoonup> content"
  dirs :: "path \<rightharpoonup> dirtree"
  stdin :: "string list"
  log :: "event list"

type_synonym 'a io = "world \<Rightarrow> (exn + 'a) \<times> world"

text \<open>
  The external tools. \<open>pylint p fs\<close> is the report text of \<^verbatim>\<open>lint.Run([p])\<close> on the
  file system \<open>fs\<close>; \<open>fix_code\<close> is \<^verbatim>\<open>autoflake.fix_code\<close> with the two removal options
  of the source; \<open>isort_file p c\<close> is the text \<^verbatim>\<open>isort.file(p)\<close> leaves in \<open>p\<close> when it
  held \<open>c\<close>; \<open>format_file_contents\<close> is \<^verbatim>\<open>black.format_file_contents\<close> with
  \<^verbatim>\<open>fast=False\<close> and the default mode. Each may raise instead.
\<close>

record tools =
  pylint :: "path \<Rightarrow> (path \<rightharpoonup> content) \<Rightarrow> exn + string"
  fix_code :: "content \<Rightarrow> exn + content"
  isort_file :: "path \<Rightarrow> content \<Rightarrow> exn + content"
  format_file_contents :: "content \<Rightarrow> exn + content"

subsection \<open>Control flow\<close>

definition emit :: "event \<Rightarrow> world \<Rightarrow> world" where
  "emit e w = w\<lparr>log := log w @ [e]\<rparr>"

definition return_io :: "'a \<Rightarrow> 'a io" where
  "return_io v w = (Inr v, w)"

definition raise_io :: "exn \<Rightarrow> 'a io" where
  "raise_io e w = (Inl e, w)"

text \<open>\<open>bind_io m f\<close>: run \<open>m\<close>; if it raised, so does the whole; otherwise go on with \<open>f\<close>.\<close>

definition bind_io :: "'a io \<Rightarrow> ('a \<Rightarrow> 'b io) \<Rightarrow> 'b io" where
  "bind_io m f w = (case m w of (Inl e, w') \<Rightarrow> (Inl e, w') | (Inr v, w') \<Rightarrow> f v w')"

text \<open>A block of statements: the first one that raises ends the block.\<close>

fun seq_io :: "unit io list \<Rightarrow> unit io" where
  "seq_io [] w = (Inr (), w)"
| "seq_io (m # ms) w = (case m w of (Inl e, w') \<Rightarrow> (Inl e, w') | (Inr _, w') \<Rightarrow> seq_io ms w')"

text \<open>A \<^verbatim>\<open>for\<close> loop over a list.\<close>

definition for_each :: "('a \<Rightarrow> unit io) \<Rightarrow> 'a list \<Rightarrow> unit io" where
  "for_each body xs = seq_io (map body xs)"

text \<open>\<^verbatim>\<open>try: body except exc: handler\<close>.\<close>

definition try_except :: "unit io \<Rightarrow> exn \<Rightarrow> unit io \<Rightarrow> unit io" where
  "try_except body exc handler w =
     (case body w of
        (Inl e, w') \<Rightarrow> if e = exc then handler w' else (Inl e, w')
      | (Inr v, w') \<Rightarrow> (Inr v, w'))"

subsection \<open>Built-ins and library calls\<close>

definition py_print :: "string \<Rightarrow> unit io" where
  "py_print s w = (Inr (), emit (Print s) w)"

text \<open>\<^verbatim>\<open>input()\<close>: the next line of the operator, \<^verbatim>\<open>EOFError\<close> when there is none.\<close>

definition py_input :: "string io" where
  "py_input w =
     (case stdin w of
        [] \<Rightarrow> (Inl EOFError, w)
      | l # ls \<Rightarrow> (Inr l, emit (Input l) (w\<lparr>stdin := ls\<rparr>)))"

text \<open>
  \<^verbatim>\<open>with open(p, "r") as file: content = file.read()\<close>, also with
  \<^verbatim>\<open>encoding="utf-8"\<close>: text mode, so the line ends are translated.
\<close>

definition read_file :: "path \<Rightarrow> content io" where
  "read_file p w =
     (case files w p of
        None \<Rightarrow> (Inl (FileNotFoundError p), w)
      | Some c \<Rightarrow> (Inr (universal_newlines c), emit (Read p) w))"

text \<open>
  \<^verbatim>\<open>with open(p, "w") as file: file.write(c)\<close>: the file is closed, hence complete on
  disk, when the block is left. On POSIX a line feed is written as it is.
\<close>

definition write_file :: "path \<Rightarrow> content \<Rightarrow> unit io" where
  "write_file p c w = (Inr (), emit (Write p c) (w\<lparr>files := (files w)(p \<mapsto> c)\<rparr>))"

definition sys_exit :: "nat \<Rightarrow> unit io" where
  "sys_exit n = raise_io (SystemExit n)"

definition isfile :: "world \<Rightarrow> path \<Rightarrow> bool" where
  "isfile w p = (files w p \<noteq> None)"

definition isdir :: "world \<Rightarrow> path \<Rightarrow> bool" where
  "isdir w p = (dirs w p \<noteq> None)"

text \<open>
  \<^verbatim>\<open>os.walk\<close>, top down: a directory first, then each of its subdirectories in turn.
  The generator lists a directory only when the loop reaches it; the script and the tools
  rewrite files that exist and create or remove none, so the listing is the same whenever
  it is taken, and the walk is the list of all its triples. A path that is no directory
  yields nothing.
\<close>

fun walk :: "path \<Rightarrow> dirtree \<Rightarrow> (path \<times> string list \<times> string list) list" where
  "walk root (DirTree fs ds) =
     (root, map fst ds, fs) # concat (map (\<lambda>(d, t). walk (path_join root d) t) ds)"

definition os_walk :: "world \<Rightarrow> path \<Rightarrow> (path \<times> string list \<times> string list) list" where
  "os_walk w directory = (case dirs w directory of None \<Rightarrow> [] | Some t \<Rightarrow> walk directory t)"

text \<open>The calls of the four tools.\<close>

definition lint_Run :: "tools \<Rightarrow> path \<Rightarrow> string io" where
  "lint_Run t p w = (pylint t p (files w), emit (Pylint p) w)"

definition autoflake_fix_code :: "tools \<Rightarrow> content \<Rightarrow> content io" where
  "autoflake_fix_code t c w = (fix_code t c, emit Autoflake w)"

definition isort_dot_file :: "tools \<Rightarrow> path \<Rightarrow> unit io" where
  "isort_dot_file t p w =
     (case files w p of
        None \<Rightarrow> (Inl (FileNotFoundError p), emit (Isort p) w)
      | Some c \<Rightarrow>
          (case isort_file t p c of
             Inl e \<Rightarrow> (Inl e, emit (Isort p) w)
           | Inr c' \<Rightarrow> (Inr (), emit (Isort p) (w\<lparr>files := (files w)(p \<mapsto> c')\<rparr>))))"

definition black_format_file_contents :: "tools \<Rightarrow> content \<Rightarrow> content io" where
  "black_format_file_contents t c w = (format_file_contents t c, emit Black w)"

subsection \<open>The script\<close>

definition run_pylint :: "tools \<Rightarrow> path \<Rightarrow> string io" where
  "run_pylint t file_path = lint_Run t file_path"

definition prompt_for_docstring :: "path \<Rightarrow> unit io" where
  \<open>prompt_for_docstring file_path =
     bind_io (read_file file_path) (\<lambda>content.
       if \<not> startswith (lstrip content) ''"""'' then
         seq_io
           [py_print (''No docstring found in '' @ file_path @ ''. Please enter a docstring:''),
            bind_io py_input (\<lambda>line.
              write_file file_path
                (''"""\<newline>'' @ strip line @ ''\<newline>"""\<newline>\<newline>'' @ content))]
       else return_io ())\<close>

definition process_file :: "tools \<Rightarrow> path \<Rightarrow> unit io" where
  "process_file t file_path =
     seq_io
       [py_print (''Processing '' @ file_path),
        py_print ''Running initial pylint...'',
        bind_io (run_pylint t file_path) py_print,
        prompt_for_docstring file_path,
        py_print ''Applying autoflake...'',
        bind_io (read_file file_path) (\<lambda>content.
          bind_io (autoflake_fix_code t content) (\<lambda>content.
            write_file file_path content)),
        py_print ''Applying isort...'',
        isort_dot_file t file_path,
        py_print ''Applying black...'',
        try_except
          (bind_io (read_file file_path) (\<lambda>content.
             bind_io (black_format_file_contents t content) (\<lambda>formatted.
               write_file file_path formatted)))
          InvalidInput
          (py_print (''Warning: Black could not format '' @ file_path)),
        py_print ''Running final pylint...'',
        bind_io (run_pylint t file_path) py_print]"

definition process_directory :: "tools \<Rightarrow> path \<Rightarrow> unit io" where
  "process_directory t directory w =
     for_each (\<lambda>(root, _, fs).
       for_each (\<lambda>file.
         if endswith file ''.py'' then process_file t (path_join root file)
         else return_io ()) fs)
       (os_walk w directory) w"

definition main :: "tools \<Rightarrow> string list \<Rightarrow> unit io" where
  "main t argv w =
     (if length argv \<noteq> 2 then
        seq_io [py_print ''Usage: python lint_and_format.py <file_or_directory>'', sys_exit 1] w
      else
        let target = argv ! 1 in
        if isfile w target then process_file t target w
        else if isdir w target then process_directory t target w
        else
          seq_io
            [py_print (''Error: '' @ target @ '' is not a valid file or directory''),
             sys_exit 1] w)"

text \<open>The status the interpreter exits with: 0 when \<^verbatim>\<open>main\<close> returns, the argument of
  \<^verbatim>\<open>sys.exit\<close>, and 1 for any other exception that nothing caught.\<close>

fun exit_status :: "exn + unit \<Rightarrow> nat" where
  "exit_status (Inr _) = 0"
| "exit_status (Inl (SystemExit n)) = n"
| "exit_status (Inl _) = 1"

subsection \<open>What is observed of a run\<close>

text \<open>The file an event accesses, if any.\<close>

fun accessed :: "event \<Rightarrow> path set" where
  "accessed (Read p) = {p}"
| "accessed (Write p c) = {p}"
| "accessed (Pylint p) = {p}"
| "accessed (Isort p) = {p}"
| "accessed e = {}"

text \<open>The files the linter was run on, in order.\<close>

fun linted :: "event list \<Rightarrow> path list" where
  "linted [] = []"
| "linted (Pylint p # es) = p # linted es"
| "linted (e # es) = linted es"

text \<open>
  The files of a directory tree whose names end in \<^verbatim>\<open>.py\<close>, by their paths, in the
  order of the traversal.
\<close>

definition py_files :: "world \<Rightarrow> path \<Rightarrow> path list" where
  "py_files w directory =
     concat (map (\<lambda>(root, _, fs). map (path_join root) (filter (\<lambda>file. endswith file ''.py'') fs))
       (os_walk w directory))"

text \<open>
  The events of one complete run of the pipeline on \<open>p\<close>, step by step. \<open>r1\<close> and \<open>r2\<close>
  are the two lint reports, \<open>asked\<close> is what the docstring step does after it has read
  the file, \<open>c2\<close> is the text the stripper returns, and \<open>formatted\<close> is what the format
  step does after the call of the formatter.
\<close>

definition schedule ::
  "path \<Rightarrow> string \<Rightarrow> event list \<Rightarrow> content \<Rightarrow> event list \<Rightarrow> string \<Rightarrow> event list" where
  "schedule p r1 asked c2 formatted r2 =
     [Print (''Processing '' @ p), Print ''Running initial pylint...'', Pylint p, Print r1]
     @ [Read p] @ asked
     @ [Print ''Applying autoflake...'', Read p, Autoflake, Write p c2]
     @ [Print ''Applying isort...'', Isort p]
     @ [Print ''Applying black...'', Read p, Black] @ formatted
     @ [Print ''Running final pylint...'', Pylint p, Print r2]"

text \<open>
  \<open>keeps S w w'\<close>: from \<open>w\<close> to \<open>w'\<close> the directories are the same, every file outside
  \<open>S\<close> holds what it held, and the events added to the log access files of \<open>S\<close> only.
  An action is confined to \<open>S\<close> when every run of it keeps to \<open>S\<close>, also one that raises.
\<close>

definition keeps :: "path set \<Rightarrow> world \<Rightarrow> world \<Rightarrow> bool" where
  "keeps S w w' =
     (dirs w' = dirs w
      \<and> (\<forall>q. q \<notin> S \<longrightarrow> files w' q = files w q)
      \<and> (\<exists>evs. log w' = log w @ evs \<and> (\<forall>e\<in>set evs. accessed e \<subseteq> S)))"

definition confined :: "path set \<Rightarrow> 'a io \<Rightarrow> bool" where
  "confined S m = (\<forall>w. keeps S w (snd (m w)))"

subsection \<open>Sample tools and file systems\<close>

text \<open>
  Stand-ins for the four tools that leave a mark in the text, so that a sample run shows
  which tool saw which text. The formatter rejects a text that holds a dollar sign and
  crashes on one that holds an exclamation mark; the linter crashes on \<^verbatim>\<open>crash.py\<close>.
\<close>

definition demo_tools :: tools where
  "demo_tools =
     \<lparr>pylint = (\<lambda>p fs. if p = ''crash.py'' then Inl (ToolError ''pylint'')
                 else Inr (''report on '' @ p)),
      fix_code = (\<lambda>c. Inr (c @ ''# stripped\<newline>'')),
      isort_file = (\<lambda>p c. Inr (c @ ''# sorted\<newline>'')),
      format_file_contents = (\<lambda>c.
         if CHR ''$'' \<in> set c then Inl InvalidInput
         else if CHR ''!'' \<in> set c then Inl (ToolError ''NothingChanged'')
         else Inr (c @ ''# formatted\<newline>''))\<rparr>"

definition demo_world :: world where
  \<open>demo_world =
     \<lparr>files =
        [''notes.txt'' \<mapsto> ''x = 1\<newline>'',
         ''doc.py'' \<mapsto> ''\<newline>  """Doc."""\<newline>x = 1\<newline>'',
         ''old.py'' \<mapsto> [CHR 0x27, CHR 0x27, CHR 0x27] @ ''Doc.''
                        @ [CHR 0x27, CHR 0x27, CHR 0x27] @ ''\<newline>'',
         ''bad.py'' \<mapsto> ''"""Doc."""\<newline>x = $\<newline>''],
      dirs = Map.empty,
      stdin = [''  A module.  ''],
      log = []\<rparr>\<close>

text \<open>A file with Windows line ends and no docstring, and an operator who pads the line.\<close>

definition crlf_world :: world where
  \<open>crlf_world =
     \<lparr>files = [''win.py'' \<mapsto> [CHR ''x'', CHR 0x0D, CHR 0x0A, CHR ''y'', CHR 0x0D, CHR 0x0A]],
      dirs = Map.empty,
      stdin = [''  A module.  ''],
      log = []\<rparr>\<close>

text \<open>A package with three \<^verbatim>\<open>.py\<close> files on three levels and one text file.\<close>

definition tree_world :: world where
  \<open>tree_world =
     \<lparr>files =
        [''pkg/a.py'' \<mapsto> ''"""A."""\<newline>'',
         ''pkg/notes.txt'' \<mapsto> ''plain\<newline>'',
         ''pkg/sub/b.py'' \<mapsto> ''"""B."""\<newline>'',
         ''pkg/sub/deep/c.py'' \<mapsto> ''"""C."""\<newline>''],
      dirs =
        [''pkg'' \<mapsto>
           DirTree [''a.py'', ''notes.txt'']
             [(''sub'', DirTree [''b.py''] [(''deep'', DirTree [''c.py''] [])])]],
      stdin = [],
      log = []\<rparr>\<close>

text \<open>A directory of three files; the formatter crashes on the second.\<close>

definition crash_world :: world where
  \<open>crash_world =
     \<lparr>files =
        [''proj/one.py'' \<mapsto> ''"""One."""\<newline>'',
         ''proj/two.py'' \<mapsto> ''"""Two!"""\<newline>'',
         ''proj/three.py'' \<mapsto> ''"""Three."""\<newline>''],
      dirs = [''proj'' \<mapsto> DirTree [''one.py'', ''two.py'', ''three.py''] []],
      stdin = [],
      log = []\<rparr>\<close>

section \<open>Properties\<close>

lemmas prim_defs = py_print_def py_input_def read_file_def write_file_def sys_exit_def
  raise_io_def return_io_def bind_io_def try_except_def emit_def lint_Run_def run_pylint_def
  autoflake_fix_code_def isort_dot_file_def black_format_file_contents_def

lemmas str_defs = startswith_def endswith_def lstrip_def rstrip_def strip_def isspace_def

lemmas demo_defs = demo_tools_def demo_world_def

lemmas run_defs = for_each_def process_file_def prompt_for_docstring_def prim_defs str_defs
  demo_tools_def

subsection \<open>The command line\<close>

text \<open>
  C3. With any number of command-line arguments other than exactly one (\<open>argv\<close> holds the
  script's name first, so its length is not 2), \<open>main\<close> prints the usage line and leaves
  with \<^verbatim>\<open>sys.exit(1)\<close>. The state it leaves differs from the one it found by that one
  printed line only: no file was read or written, no tool was run.
\<close>

theorem main_wrong_argument_count:
  "length argv \<noteq> 2 \<Longrightarrow>
   main t argv w =
     (Inl (SystemExit 1),
      w\<lparr>log := log w @ [Print ''Usage: python lint_and_format.py <file_or_directory>'']\<rparr>)
   \<and> exit_status (fst (main t argv w)) = 1"
  by (simp add: main_def prim_defs)

theorem main_wrong_argument_count_witness:
  "main demo_tools [''helpitnotsuck.py''] demo_world =
     (Inl (SystemExit 1),
      demo_world\<lparr>log := [Print ''Usage: python lint_and_format.py <file_or_directory>'']\<rparr>)
   \<and> main demo_tools [''helpitnotsuck.py'', ''doc.py'', ''old.py''] demo_world =
     (Inl (SystemExit 1),
      demo_world\<lparr>log := [Print ''Usage: python lint_and_format.py <file_or_directory>'']\<rparr>)"
  using main_wrong_argument_count [of "[''helpitnotsuck.py'']" demo_tools demo_world]
    main_wrong_argument_count [of "[''helpitnotsuck.py'', ''doc.py'', ''old.py'']" demo_tools demo_world]
  by (simp add: demo_world_def)

text \<open>
  C4. When the single argument names neither a file nor a directory, \<open>main\<close> prints the
  error line and leaves with \<^verbatim>\<open>sys.exit(1)\<close>; nothing else happened.
\<close>

theorem main_invalid_target:
  "files w target = None \<Longrightarrow> dirs w target = None \<Longrightarrow>
   main t [prog, target] w =
     (Inl (SystemExit 1),
      w\<lparr>log := log w @ [Print (''Error: '' @ target @ '' is not a valid file or directory'')]\<rparr>)
   \<and> exit_status (fst (main t [prog, target] w)) = 1"
  by (simp add: main_def prim_defs isfile_def isdir_def)

theorem main_invalid_target_witness:
  "main demo_tools [''helpitnotsuck.py'', ''nowhere''] demo_world =
     (Inl (SystemExit 1),
      demo_world\<lparr>log := [Print ''Error: nowhere is not a valid file or directory'']\<rparr>)"
proof -
  have f: "files demo_world ''nowhere'' = None" and d: "dirs demo_world ''nowhere'' = None"
    by (simp_all add: demo_world_def)
  from main_invalid_target [OF f d, of demo_tools "''helpitnotsuck.py''"]
  show ?thesis by (simp add: demo_world_def)
qed

text \<open>
  C9. In single-file mode there is no filter on the name: whenever the argument names a
  file, whatever its extension, \<open>main\<close> is the whole per-file pipeline on it.
\<close>

theorem main_single_file_unfiltered:
  "files w target = Some c \<Longrightarrow> main t [prog, target] w = process_file t target w"
  by (simp add: main_def isfile_def)

theorem main_single_file_unfiltered_witness:
  \<open>\<not> endswith ''notes.txt'' ''.py''
   \<and> main demo_tools [''helpitnotsuck.py'', ''notes.txt''] demo_world
       = process_file demo_tools ''notes.txt'' demo_world
   \<and> fst (main demo_tools [''helpitnotsuck.py'', ''notes.txt''] demo_world) = Inr ()
   \<and> files (snd (main demo_tools [''helpitnotsuck.py'', ''notes.txt''] demo_world)) ''notes.txt''
       = Some (''"""\<newline>A module.\<newline>"""\<newline>\<newline>x = 1\<newline>''
               @ ''# stripped\<newline># sorted\<newline># formatted\<newline>'')\<close>
proof -
  have f: \<open>files demo_world ''notes.txt'' = Some ''x = 1\<newline>''\<close>
    by (simp add: demo_world_def)
  have run: \<open>process_file demo_tools ''notes.txt'' demo_world =
    (Inr (),
     demo_world\<lparr>files := (files demo_world)(''notes.txt'' \<mapsto>
         ''"""\<newline>A module.\<newline>"""\<newline>\<newline>x = 1\<newline>''
         @ ''# stripped\<newline># sorted\<newline># formatted\<newline>''),
       stdin := [],
       log := [Print ''Processing notes.txt'', Print ''Running initial pylint...'',
         Pylint ''notes.txt'', Print ''report on notes.txt'', Read ''notes.txt'',
         Print ''No docstring found in notes.txt. Please enter a docstring:'',
         Input ''  A module.  '',
         Write ''notes.txt'' ''"""\<newline>A module.\<newline>"""\<newline>\<newline>x = 1\<newline>'',
         Print ''Applying autoflake...'', Read ''notes.txt'', Autoflake,
         Write ''notes.txt''
           (''"""\<newline>A module.\<newline>"""\<newline>\<newline>x = 1\<newline>'' @ ''# stripped\<newline>''),
         Print ''Applying isort...'', Isort ''notes.txt'',
         Print ''Applying black...'', Read ''notes.txt'', Black,
         Write ''notes.txt''
           (''"""\<newline>A module.\<newline>"""\<newline>\<newline>x = 1\<newline>''
            @ ''# stripped\<newline># sorted\<newline># formatted\<newline>''),
         Print ''Running final pylint...'', Pylint ''notes.txt'',
         Print ''report on notes.txt'']\<rparr>)\<close>
    by (simp add: process_file_def prompt_for_docstring_def prim_defs str_defs demo_defs)
  from main_single_file_unfiltered [OF f, of demo_tools "''helpitnotsuck.py''"] run
  show ?thesis by (simp add: endswith_def)
qed

subsection \<open>Reading in text mode\<close>

lemma universal_newlines_without_cr:
  "CHR 0x0D \<notin> set c \<Longrightarrow> universal_newlines c = c"
  by (induction c rule: universal_newlines.induct) auto

lemma lstrip_universal_newlines:
  "lstrip (universal_newlines c) = universal_newlines (lstrip c)"
  by (induction c rule: universal_newlines.induct) (auto simp: lstrip_def isspace_def)

lemma startswith_quotes_universal_newlines:
  \<open>startswith (universal_newlines s) ''"""'' = startswith s ''"""''\<close>
proof (cases s rule: universal_newlines.cases)
  case (3 a b t)
  show ?thesis
  proof (cases t rule: universal_newlines.cases)
    case 1
    with 3 show ?thesis by (auto simp: startswith_def)
  next
    case (2 c)
    with 3 show ?thesis by (auto simp: startswith_def)
  next
    case (3 c d u)
    with \<open>s = a # b # t\<close> show ?thesis by (auto simp: startswith_def)
  qed
qed (auto simp: startswith_def)

text \<open>The docstring test gives the same answer on the text as read and as on disk.\<close>

lemma docstring_check_on_disk:
  \<open>startswith (lstrip (universal_newlines c)) ''"""'' = startswith (lstrip c) ''"""''\<close>
  by (simp add: lstrip_universal_newlines startswith_quotes_universal_newlines)

subsection \<open>The docstring prompt\<close>

lemma single_quotes_are_not_double_quotes:
  \<open>startswith s [CHR 0x27, CHR 0x27, CHR 0x27] \<Longrightarrow> \<not> startswith s ''"""''\<close>
  by (auto simp: startswith_def)

lemma strip_unpadded:
  "x = [] \<or> \<not> isspace (hd x) \<and> \<not> isspace (last x) \<Longrightarrow> strip x = x"
proof (cases "x = []")
  case True
  then show ?thesis by (simp add: strip_def lstrip_def rstrip_def)
next
  case False
  assume "x = [] \<or> \<not> isspace (hd x) \<and> \<not> isspace (last x)"
  with False have h: "\<not> isspace (hd x)" and l: "\<not> isspace (hd (rev x))"
    by (simp_all add: hd_rev)
  from h have "dropWhile isspace x = x"
    by (simp add: dropWhile_eq_self_iff)
  moreover from l have "dropWhile isspace (rev x) = rev x"
    by (simp add: dropWhile_eq_self_iff)
  ultimately show ?thesis
    by (simp add: strip_def lstrip_def rstrip_def)
qed




text \<open>
  C10. Only three double quotes count as a docstring. A file that starts, after its
  leading whitespace, with three single quotes is treated as having none: the step prints
  the request, takes the operator's next line and rewrites the file with a block in
  double quotes above the text it read, the single-quoted docstring included.
\<close>

theorem single_quoted_docstring_prompts:
  \<open>files w p = Some c \<Longrightarrow> startswith (lstrip c) [CHR 0x27, CHR 0x27, CHR 0x27] \<Longrightarrow>
   stdin w = x # rest \<Longrightarrow>
   prompt_for_docstring p w =
     (Inr (),
      w\<lparr>files := (files w)(p \<mapsto>
          ''"""\<newline>'' @ strip x @ ''\<newline>"""\<newline>\<newline>'' @ universal_newlines c),
        stdin := rest,
        log := log w @
          [Read p,
           Print (''No docstring found in '' @ p @ ''. Please enter a docstring:''),
           Input x,
           Write p (''"""\<newline>'' @ strip x @ ''\<newline>"""\<newline>\<newline>''
                    @ universal_newlines c)]\<rparr>)\<close>
  by (simp add: prompt_for_docstring_def prim_defs docstring_check_on_disk
      single_quotes_are_not_double_quotes)

theorem single_quoted_docstring_prompts_witness:
  \<open>files (snd (prompt_for_docstring ''old.py'' demo_world)) ''old.py'' =
     Some (''"""\<newline>A module.\<newline>"""\<newline>\<newline>''
           @ [CHR 0x27, CHR 0x27, CHR 0x27] @ ''Doc.'' @ [CHR 0x27, CHR 0x27, CHR 0x27] @ ''\<newline>'')
   \<and> stdin (snd (prompt_for_docstring ''old.py'' demo_world)) = []\<close>
proof -
  let ?c = \<open>[CHR 0x27, CHR 0x27, CHR 0x27] @ ''Doc.'' @ [CHR 0x27, CHR 0x27, CHR 0x27] @ ''\<newline>''\<close>
  have f: \<open>files demo_world ''old.py'' = Some ?c\<close>
    by (simp add: demo_world_def)
  have d: \<open>startswith (lstrip ?c) [CHR 0x27, CHR 0x27, CHR 0x27]\<close>
    by (simp add: str_defs)
  have i: \<open>stdin demo_world = ''  A module.  '' # []\<close>
    by (simp add: demo_world_def)
  from single_quoted_docstring_prompts [OF f d i]
  show ?thesis by (simp add: str_defs)
qed

text \<open>
  C5, as the code has it. For a file whose text, after its leading whitespace, does not
  start with three double quotes, and an operator who types the line \<open>x\<close>: the step
  returns, and the file then holds a line of three double quotes, the line \<open>x\<close> without
  its leading and trailing whitespace (\<^verbatim>\<open>input().strip()\<close>), a line of three double
  quotes, an empty line, and then the text it held before as text mode reads it: with
  every carriage return and line feed, and every other carriage return, turned into one
  line feed. The block holds exactly \<open>x\<close> when \<open>x\<close> neither starts nor ends with
  whitespace, and the text below the block is unchanged, character by character, when it
  holds no carriage return.
\<close>

theorem docstring_prompt_prepends_stripped_input:
  \<open>files w p = Some c \<Longrightarrow> \<not> startswith (lstrip c) ''"""'' \<Longrightarrow> stdin w = x # rest \<Longrightarrow>
   fst (prompt_for_docstring p w) = Inr ()
   \<and> files (snd (prompt_for_docstring p w)) p
       = Some (''"""\<newline>'' @ strip x @ ''\<newline>"""\<newline>\<newline>'' @ universal_newlines c)
   \<and> (x = [] \<or> \<not> isspace (hd x) \<and> \<not> isspace (last x) \<longrightarrow> strip x = x)
   \<and> (CHR 0x0D \<notin> set c \<longrightarrow> universal_newlines c = c)\<close>
  by (simp add: prompt_for_docstring_def prim_defs docstring_check_on_disk strip_unpadded
      universal_newlines_without_cr)

theorem docstring_prompt_prepends_stripped_input_witness:
  \<open>fst (prompt_for_docstring ''notes.txt'' demo_world) = Inr ()
   \<and> files (snd (prompt_for_docstring ''notes.txt'' demo_world)) ''notes.txt''
       = Some ''"""\<newline>A module.\<newline>"""\<newline>\<newline>x = 1\<newline>''\<close>
proof -
  have f: \<open>files demo_world ''notes.txt'' = Some ''x = 1\<newline>''\<close>
    by (simp add: demo_world_def)
  have d: \<open>\<not> startswith (lstrip ''x = 1\<newline>'') ''"""''\<close>
    by (simp add: str_defs)
  have i: \<open>stdin demo_world = ''  A module.  '' # []\<close>
    by (simp add: demo_world_def)
  from docstring_prompt_prepends_stripped_input [OF f d i]
  show ?thesis by (simp add: str_defs)
qed

text \<open>
  The claim as the specification words it (the block holds exactly the operator's input,
  the content below it is unchanged byte for byte) fails twice on one input. The file
  holds two lines that end in carriage return and line feed and the operator types
  \<open>''  A module.  ''\<close>: the block holds \<open>''A module.''\<close> and the typed line occurs
  nowhere in the file; the two lines below the block end in a line feed alone, so the
  file no longer ends with the text it held.
\<close>

theorem docstring_block_exactly_input_counterexample:
  \<open>files crlf_world ''win.py'' = Some [CHR ''x'', CHR 0x0D, CHR 0x0A, CHR ''y'', CHR 0x0D, CHR 0x0A]
   \<and> \<not> startswith (lstrip [CHR ''x'', CHR 0x0D, CHR 0x0A, CHR ''y'', CHR 0x0D, CHR 0x0A]) ''"""''
   \<and> stdin crlf_world = [''  A module.  '']
   \<and> fst (prompt_for_docstring ''win.py'' crlf_world) = Inr ()
   \<and> files (snd (prompt_for_docstring ''win.py'' crlf_world)) ''win.py''
       = Some ''"""\<newline>A module.\<newline>"""\<newline>\<newline>x\<newline>y\<newline>''
   \<and> \<not> sublist ''  A module.  '' ''"""\<newline>A module.\<newline>"""\<newline>\<newline>x\<newline>y\<newline>''
   \<and> \<not> suffix [CHR ''x'', CHR 0x0D, CHR 0x0A, CHR ''y'', CHR 0x0D, CHR 0x0A]
         ''"""\<newline>A module.\<newline>"""\<newline>\<newline>x\<newline>y\<newline>''\<close>
  by (simp add: prompt_for_docstring_def prim_defs str_defs crlf_world_def sublist_code
      suffix_to_prefix)

subsection \<open>The pipeline on one file\<close>

lemma prompt_for_docstring_needs_file:
  \<open>prompt_for_docstring p w = (Inr (), w') \<Longrightarrow> files w p \<noteq> None\<close>
  by (auto simp: prompt_for_docstring_def prim_defs split: option.splits)

text \<open>
  Every run of the pipeline, returning or not: its events are an initial part of the
  schedule, and the whole schedule when it returns. First the docstring step alone, then
  the pipeline up to it and after it.
\<close>

lemma prompt_for_docstring_events:
  \<open>\<exists>evs asked.
     log (snd (prompt_for_docstring p w)) = log w @ evs
     \<and> prefix evs (Read p # asked)
     \<and> (asked = [] \<or> (\<exists>x c. asked =
           [Print (''No docstring found in '' @ p @ ''. Please enter a docstring:''),
            Input x, Write p c]))
     \<and> (fst (prompt_for_docstring p w) = Inr () \<longrightarrow> evs = Read p # asked)\<close>
proof -
  define c0 where "c0 = (case files w p of Some c \<Rightarrow> c | None \<Rightarrow> [])"
  define asked where \<open>asked = (if startswith (lstrip c0) ''"""'' then []
     else [Print (''No docstring found in '' @ p @ ''. Please enter a docstring:''),
           Input (hd (stdin w)),
           Write p (''"""\<newline>'' @ strip (hd (stdin w)) @ ''\<newline>"""\<newline>\<newline>''
                    @ universal_newlines c0)])\<close>
  let ?evs = "drop (length (log w)) (log (snd (prompt_for_docstring p w)))"
  have "log (snd (prompt_for_docstring p w)) = log w @ ?evs
     \<and> prefix ?evs (Read p # asked)
     \<and> (fst (prompt_for_docstring p w) = Inr () \<longrightarrow> ?evs = Read p # asked)"
    unfolding asked_def c0_def
    by (cases "files w p"; cases "stdin w")
      (simp_all add: prompt_for_docstring_def prim_defs docstring_check_on_disk)
  moreover have \<open>asked = [] \<or> (\<exists>x c. asked =
           [Print (''No docstring found in '' @ p @ ''. Please enter a docstring:''),
            Input x, Write p c])\<close>
    unfolding asked_def by simp
  ultimately show ?thesis by blast
qed

lemma process_file_until_docstring:
  "pylint t p (files w) = Inl e \<Longrightarrow>
   process_file t p w =
     (Inl e, w\<lparr>log := log w @ [Print (''Processing '' @ p), Print ''Running initial pylint...'',
                                 Pylint p]\<rparr>)"
  "pylint t p (files w) = Inr r1 \<Longrightarrow>
   prompt_for_docstring p
        (w\<lparr>log := log w @ [Print (''Processing '' @ p), Print ''Running initial pylint...'',
                            Pylint p, Print r1]\<rparr>) = (Inl e, w2) \<Longrightarrow>
   process_file t p w = (Inl e, w2)"
  by (simp_all add: process_file_def prim_defs)

lemma process_file_after_docstring:
  assumes pre: "pylint t p (files w) = Inr r1"
    and doc: "prompt_for_docstring p
        (w\<lparr>log := log w @ [Print (''Processing '' @ p), Print ''Running initial pylint...'',
                            Pylint p, Print r1]\<rparr>) = (Inr (), w2)"
  shows "\<exists>evs c2 formatted r2.
     log (snd (process_file t p w)) = log w2 @ evs
     \<and> prefix evs
         ([Print ''Applying autoflake...'', Read p, Autoflake, Write p c2,
           Print ''Applying isort...'', Isort p,
           Print ''Applying black...'', Read p, Black] @ formatted
          @ [Print ''Running final pylint...'', Pylint p, Print r2])
     \<and> ((\<exists>c4. formatted = [Write p c4])
         \<or> formatted = [Print (''Warning: Black could not format '' @ p)])
     \<and> (fst (process_file t p w) = Inr () \<longrightarrow> evs =
          [Print ''Applying autoflake...'', Read p, Autoflake, Write p c2,
           Print ''Applying isort...'', Isort p,
           Print ''Applying black...'', Read p, Black] @ formatted
          @ [Print ''Running final pylint...'', Pylint p, Print r2])"
proof -
  from doc obtain c1 where held: "files w2 p = Some c1"
    by (auto simp: prompt_for_docstring_def prim_defs split: option.splits if_splits list.splits)
  define c2 where "c2 = (case fix_code t (universal_newlines c1) of Inr c \<Rightarrow> c | Inl e \<Rightarrow> [])"
  define c3 where "c3 = (case isort_file t p c2 of Inr c \<Rightarrow> c | Inl e \<Rightarrow> [])"
  define formatted where "formatted = (case format_file_contents t (universal_newlines c3) of
      Inr c4 \<Rightarrow> [Write p c4] | Inl e \<Rightarrow> [Print (''Warning: Black could not format '' @ p)])"
  define c4 where "c4 = (case format_file_contents t (universal_newlines c3) of
      Inr c \<Rightarrow> c | Inl e \<Rightarrow> c3)"
  define r2 where "r2 = (case pylint t p ((files w2)(p \<mapsto> c4)) of Inr r \<Rightarrow> r | Inl e \<Rightarrow> [])"
  let ?evs = "drop (length (log w2)) (log (snd (process_file t p w)))"
  let ?all = "[Print ''Applying autoflake...'', Read p, Autoflake, Write p c2,
           Print ''Applying isort...'', Isort p,
           Print ''Applying black...'', Read p, Black] @ formatted
          @ [Print ''Running final pylint...'', Pylint p, Print r2]"
  have run: "log (snd (process_file t p w)) = log w2 @ ?evs \<and> prefix ?evs ?all
     \<and> (fst (process_file t p w) = Inr () \<longrightarrow> ?evs = ?all)"
  proof (cases "fix_code t (universal_newlines c1)")
    case (Inl e)
    with pre doc held show ?thesis
      by (simp add: process_file_def prim_defs)
  next
    case strip: (Inr c2')
    then have c2: "c2 = c2'" by (simp add: c2_def)
    show ?thesis
    proof (cases "isort_file t p c2'")
      case (Inl e)
      with pre doc held strip c2 show ?thesis
        by (simp add: process_file_def prim_defs)
    next
      case sort: (Inr c3')
      then have c3: "c3 = c3'" by (simp add: c3_def c2)
      show ?thesis
      proof (cases "format_file_contents t (universal_newlines c3')")
        case fmt: (Inl e)
        then have f: "formatted = [Print (''Warning: Black could not format '' @ p)]"
          and c4: "c4 = c3'"
          by (simp_all add: formatted_def c4_def c3)
        show ?thesis
        proof (cases "e = InvalidInput")
          case False
          with pre doc held strip c2 sort fmt f show ?thesis
            by (simp add: process_file_def prim_defs)
        next
          case True
          with pre doc held strip c2 sort fmt f c4 show ?thesis
            by (cases "pylint t p ((files w2)(p \<mapsto> c3'))")
              (simp_all add: process_file_def prim_defs r2_def)
        qed
      next
        case fmt: (Inr c4')
        then have f: "formatted = [Write p c4']" and c4: "c4 = c4'"
          by (simp_all add: formatted_def c4_def c3)
        with pre doc held strip c2 sort fmt show ?thesis
          by (cases "pylint t p ((files w2)(p \<mapsto> c4'))")
            (simp_all add: process_file_def prim_defs r2_def)
      qed
    qed
  qed
  have "(\<exists>c4. formatted = [Write p c4])
         \<or> formatted = [Print (''Warning: Black could not format '' @ p)]"
    unfolding formatted_def by (simp split: sum.splits)
  with run show ?thesis by blast
qed

lemma prefix_longer: "prefix ds (x # as) \<Longrightarrow> prefix ds (x # as @ rest)"
  by (metis append_Cons prefix_prefix)

lemma process_file_events_scheduled:
  \<open>\<exists>evs r1 asked c2 formatted r2.
     log (snd (process_file t p w)) = log w @ evs
     \<and> prefix evs (schedule p r1 asked c2 formatted r2)
     \<and> (asked = [] \<or> (\<exists>x c. asked =
           [Print (''No docstring found in '' @ p @ ''. Please enter a docstring:''),
            Input x, Write p c]))
     \<and> ((\<exists>c4. formatted = [Write p c4])
         \<or> formatted = [Print (''Warning: Black could not format '' @ p)])
     \<and> (fst (process_file t p w) = Inr () \<longrightarrow> evs = schedule p r1 asked c2 formatted r2)\<close>
proof (cases "pylint t p (files w)")
  case (Inl e)
  let ?warn = "[Print (''Warning: Black could not format '' @ p)]"
  from process_file_until_docstring(1) [OF Inl]
  have "log (snd (process_file t p w)) =
      log w @ [Print (''Processing '' @ p), Print ''Running initial pylint...'', Pylint p]
    \<and> prefix [Print (''Processing '' @ p), Print ''Running initial pylint...'', Pylint p]
        (schedule p [] [] [] ?warn [])
    \<and> ([] = [] \<or> (\<exists>x c. [] =
           [Print (''No docstring found in '' @ p @ ''. Please enter a docstring:''),
            Input x, Write p c]))
    \<and> ((\<exists>c4. ?warn = [Write p c4]) \<or> ?warn = ?warn)
    \<and> (fst (process_file t p w) = Inr () \<longrightarrow>
        [Print (''Processing '' @ p), Print ''Running initial pylint...'', Pylint p]
        = schedule p [] [] [] ?warn [])"
    by (simp add: schedule_def)
  then show ?thesis by (intro exI)
next
  case pre: (Inr r1)
  let ?head = "[Print (''Processing '' @ p), Print ''Running initial pylint...'', Pylint p, Print r1]"
  let ?w1 = "w\<lparr>log := log w @ ?head\<rparr>"
  obtain r w2 where doc: "prompt_for_docstring p ?w1 = (r, w2)"
    by (cases "prompt_for_docstring p ?w1")
  from prompt_for_docstring_events [of p ?w1]
  obtain devs asked where d:
    \<open>log (snd (prompt_for_docstring p ?w1)) = log ?w1 @ devs
     \<and> prefix devs (Read p # asked)
     \<and> (asked = [] \<or> (\<exists>x c. asked =
           [Print (''No docstring found in '' @ p @ ''. Please enter a docstring:''),
            Input x, Write p c]))
     \<and> (fst (prompt_for_docstring p ?w1) = Inr () \<longrightarrow> devs = Read p # asked)\<close>
    by (elim exE) (rule that)
  from d doc have devs: "log w2 = log w @ ?head @ devs" by simp
  from d have pfx: "prefix devs (Read p # asked)" by (elim conjE)
  from d have asked: \<open>asked = [] \<or> (\<exists>x c. asked =
           [Print (''No docstring found in '' @ p @ ''. Please enter a docstring:''),
            Input x, Write p c])\<close> by (elim conjE)
  from d doc have full: "r = Inr () \<longrightarrow> devs = Read p # asked" by simp
  show ?thesis
  proof (cases r)
    case (Inl e)
    let ?warn = "[Print (''Warning: Black could not format '' @ p)]"
    from process_file_until_docstring(2) [OF pre doc [unfolded Inl]]
    have run: "process_file t p w = (Inl e, w2)" .
    from pfx have "prefix (?head @ devs) (schedule p r1 asked [] ?warn [])"
      by (simp add: schedule_def prefix_longer)
    with run devs asked
    have "log (snd (process_file t p w)) = log w @ (?head @ devs)
      \<and> prefix (?head @ devs) (schedule p r1 asked [] ?warn [])
      \<and> (asked = [] \<or> (\<exists>x c. asked =
           [Print (''No docstring found in '' @ p @ ''. Please enter a docstring:''),
            Input x, Write p c]))
      \<and> ((\<exists>c4. ?warn = [Write p c4]) \<or> ?warn = ?warn)
      \<and> (fst (process_file t p w) = Inr () \<longrightarrow> ?head @ devs = schedule p r1 asked [] ?warn [])"
      by simp
    then show ?thesis by (intro exI)
  next
    case (Inr u)
    then have r: "r = Inr ()" by simp
    with full have devs': "devs = Read p # asked" by simp
    let ?tail = "\<lambda>c2 formatted r2.
          [Print ''Applying autoflake...'', Read p, Autoflake, Write p c2,
           Print ''Applying isort...'', Isort p,
           Print ''Applying black...'', Read p, Black] @ formatted
          @ [Print ''Running final pylint...'', Pylint p, Print r2]"
    from process_file_after_docstring [OF pre doc [unfolded r]]
    obtain tevs c2 formatted r2 where tl:
      "log (snd (process_file t p w)) = log w2 @ tevs
       \<and> prefix tevs (?tail c2 formatted r2)
       \<and> ((\<exists>c4. formatted = [Write p c4])
           \<or> formatted = [Print (''Warning: Black could not format '' @ p)])
       \<and> (fst (process_file t p w) = Inr () \<longrightarrow> tevs = ?tail c2 formatted r2)"
      by (elim exE) (rule that)
    have sch: "schedule p r1 asked c2 formatted r2 = (?head @ devs) @ ?tail c2 formatted r2"
      by (simp add: schedule_def devs')
    have 1: "log (snd (process_file t p w)) = log w @ ((?head @ devs) @ tevs)"
      using tl devs by simp
    have 2: "prefix ((?head @ devs) @ tevs) (schedule p r1 asked c2 formatted r2)"
      unfolding sch using tl by (simp only: same_prefix_prefix)
    have 3: "fst (process_file t p w) = Inr () \<longrightarrow>
        (?head @ devs) @ tevs = schedule p r1 asked c2 formatted r2"
      unfolding sch using tl by simp
    from tl have 4: "(\<exists>c4. formatted = [Write p c4])
           \<or> formatted = [Print (''Warning: Black could not format '' @ p)]"
      by (elim conjE)
    from 1 2 asked 4 3
    have "log (snd (process_file t p w)) = log w @ ((?head @ devs) @ tevs)
      \<and> prefix ((?head @ devs) @ tevs) (schedule p r1 asked c2 formatted r2)
      \<and> (asked = [] \<or> (\<exists>x c. asked =
           [Print (''No docstring found in '' @ p @ ''. Please enter a docstring:''),
            Input x, Write p c]))
      \<and> ((\<exists>c4. formatted = [Write p c4])
           \<or> formatted = [Print (''Warning: Black could not format '' @ p)])
      \<and> (fst (process_file t p w) = Inr () \<longrightarrow>
        (?head @ devs) @ tevs = schedule p r1 asked c2 formatted r2)"
      by (intro conjI)
    then show ?thesis by (intro exI)
  qed
qed

lemma process_file_all_return:
  assumes pre: \<open>pylint t p (files w) = Inr r1\<close>
    and doc: \<open>prompt_for_docstring p
        (w\<lparr>log := log w @ [Print (''Processing '' @ p), Print ''Running initial pylint...'',
                            Pylint p, Print r1]\<rparr>) = (Inr (), w2)\<close>
    and held: \<open>files w2 p = Some c1\<close>
    and strip: \<open>fix_code t (universal_newlines c1) = Inr c2\<close>
    and sort: \<open>isort_file t p c2 = Inr c3\<close>
    and fmt: \<open>format_file_contents t (universal_newlines c3) = Inr c4\<close>
    and post: \<open>pylint t p ((files w2)(p \<mapsto> c4)) = Inr r2\<close>
  shows \<open>process_file t p w =
    (Inr (),
     w2\<lparr>files := (files w2)(p \<mapsto> c4),
        log := log w2 @
          [Print ''Applying autoflake...'', Read p, Autoflake, Write p c2,
           Print ''Applying isort...'', Isort p,
           Print ''Applying black...'', Read p, Black, Write p c4,
           Print ''Running final pylint...'', Pylint p, Print r2]\<rparr>)\<close>
  using assms by (simp add: process_file_def prim_defs)

text \<open>
  C2. The pipeline on one file is one pass through a fixed sequence.

  For every run, whatever the tools do: the events of the run are an initial part of
  \<open>schedule\<close>, that is pre-lint, docstring check (the file is read; when it has no
  docstring the request is printed, a line is taken and the file is written), strip and
  write, sort, format (the file is read, the formatter is called, and either its result
  is written or the warning is printed), post-lint. The run stops early only where an
  exception leaves it, no step is repeated, and the events are the whole schedule when
  the run returns.

  For a run in which every tool returns: \<open>r1\<close> is the first lint report; \<open>w2\<close> is the
  state the docstring step leaves when it runs right after that report was printed, and
  \<open>c1\<close> the text of the file then. The stripper is given \<open>c1\<close> as text mode reads it
  and returns \<open>c2\<close>, the sorter finds \<open>c2\<close> in the file and leaves \<open>c3\<close>, the formatter is
  given \<open>c3\<close> as text mode reads it and returns \<open>c4\<close>, and the second lint runs on a file
  system whose file holds \<open>c4\<close>: each step works on the text that the step before it left
  in the file.
\<close>

theorem process_file_fixed_sequence:
  \<open>(\<exists>evs r1 asked c2 formatted r2.
      log (snd (process_file t p w)) = log w @ evs
      \<and> prefix evs (schedule p r1 asked c2 formatted r2)
      \<and> (asked = [] \<or> (\<exists>x c. asked =
            [Print (''No docstring found in '' @ p @ ''. Please enter a docstring:''),
             Input x, Write p c]))
      \<and> ((\<exists>c4. formatted = [Write p c4])
          \<or> formatted = [Print (''Warning: Black could not format '' @ p)])
      \<and> (fst (process_file t p w) = Inr () \<longrightarrow> evs = schedule p r1 asked c2 formatted r2))
   \<and> (pylint t p (files w) = Inr r1 \<longrightarrow>
      prompt_for_docstring p
        (w\<lparr>log := log w @ [Print (''Processing '' @ p), Print ''Running initial pylint...'',
                            Pylint p, Print r1]\<rparr>) = (Inr (), w2) \<longrightarrow>
      files w2 p = Some c1 \<longrightarrow>
      fix_code t (universal_newlines c1) = Inr c2 \<longrightarrow>
      isort_file t p c2 = Inr c3 \<longrightarrow>
      format_file_contents t (universal_newlines c3) = Inr c4 \<longrightarrow>
      pylint t p ((files w2)(p \<mapsto> c4)) = Inr r2 \<longrightarrow>
      process_file t p w =
        (Inr (),
         w2\<lparr>files := (files w2)(p \<mapsto> c4),
            log := log w2 @
              [Print ''Applying autoflake...'', Read p, Autoflake, Write p c2,
               Print ''Applying isort...'', Isort p,
               Print ''Applying black...'', Read p, Black, Write p c4,
               Print ''Running final pylint...'', Pylint p, Print r2]\<rparr>))\<close>
  by (intro conjI impI) (rule process_file_events_scheduled, rule process_file_all_return)

theorem process_file_fixed_sequence_witness:
  \<open>process_file demo_tools ''doc.py'' demo_world =
    (Inr (),
     demo_world\<lparr>files := (files demo_world)(''doc.py'' \<mapsto>
          ''\<newline>  """Doc."""\<newline>x = 1\<newline># stripped\<newline># sorted\<newline># formatted\<newline>''),
        log :=
          [Print ''Processing doc.py'', Print ''Running initial pylint...'',
           Pylint ''doc.py'', Print ''report on doc.py'', Read ''doc.py'',
           Print ''Applying autoflake...'', Read ''doc.py'', Autoflake,
           Write ''doc.py'' ''\<newline>  """Doc."""\<newline>x = 1\<newline># stripped\<newline>'',
           Print ''Applying isort...'', Isort ''doc.py'',
           Print ''Applying black...'', Read ''doc.py'', Black,
           Write ''doc.py''
             ''\<newline>  """Doc."""\<newline>x = 1\<newline># stripped\<newline># sorted\<newline># formatted\<newline>'',
           Print ''Running final pylint...'', Pylint ''doc.py'',
           Print ''report on doc.py'']\<rparr>)\<close>
proof -
  let ?c = \<open>''\<newline>  """Doc."""\<newline>x = 1\<newline>''\<close>
  let ?w1 = \<open>demo_world\<lparr>log := log demo_world @
      [Print (''Processing '' @ ''doc.py''), Print ''Running initial pylint...'',
       Pylint ''doc.py'', Print ''report on doc.py'']\<rparr>\<close>
  have pre: \<open>pylint demo_tools ''doc.py'' (files demo_world) = Inr ''report on doc.py''\<close>
    by (simp add: demo_defs)
  have doc: \<open>prompt_for_docstring ''doc.py'' ?w1 = (Inr (), ?w1\<lparr>log := log ?w1 @ [Read ''doc.py'']\<rparr>)\<close>
    by (simp add: prompt_for_docstring_def prim_defs str_defs demo_defs)
  have held: \<open>files (?w1\<lparr>log := log ?w1 @ [Read ''doc.py'']\<rparr>) ''doc.py'' = Some ?c\<close>
    by (simp add: demo_defs)
  have strip: \<open>fix_code demo_tools (universal_newlines ?c) = Inr (?c @ ''# stripped\<newline>'')\<close>
    by (simp add: demo_defs)
  have sort: \<open>isort_file demo_tools ''doc.py'' (?c @ ''# stripped\<newline>'')
      = Inr (?c @ ''# stripped\<newline># sorted\<newline>'')\<close>
    by (simp add: demo_defs)
  have fmt: \<open>format_file_contents demo_tools
      (universal_newlines (?c @ ''# stripped\<newline># sorted\<newline>''))
      = Inr (?c @ ''# stripped\<newline># sorted\<newline># formatted\<newline>'')\<close>
    by (simp add: demo_defs)
  have post: \<open>pylint demo_tools ''doc.py''
      ((files (?w1\<lparr>log := log ?w1 @ [Read ''doc.py'']\<rparr>))
         (''doc.py'' \<mapsto> ?c @ ''# stripped\<newline># sorted\<newline># formatted\<newline>''))
      = Inr ''report on doc.py''\<close>
    by (simp add: demo_defs)
  from process_file_fixed_sequence [THEN conjunct2, rule_format, OF pre doc held strip sort fmt post]
  show ?thesis by (simp add: demo_defs)
qed

text \<open>
  C1. The same run, but the formatter rejects the text \<open>c3\<close> that the sorter left,
  given to it as text mode reads it, with \<^verbatim>\<open>InvalidInput\<close>. The exception is caught: the warning is printed, nothing is written
  after the sorter, so the file still holds \<open>c3\<close> (the stripper's and the sorter's work
  is kept), the second lint runs and is printed, and the pipeline returns. Run on its
  own from the command line, the process exits with status 0.
\<close>

theorem process_file_invalid_input_contained:
  assumes pre: \<open>pylint t p (files w) = Inr r1\<close>
    and doc: \<open>prompt_for_docstring p
        (w\<lparr>log := log w @ [Print (''Processing '' @ p), Print ''Running initial pylint...'',
                            Pylint p, Print r1]\<rparr>) = (Inr (), w2)\<close>
    and held: \<open>files w2 p = Some c1\<close>
    and strip: \<open>fix_code t (universal_newlines c1) = Inr c2\<close>
    and sort: \<open>isort_file t p c2 = Inr c3\<close>
    and fmt: \<open>format_file_contents t (universal_newlines c3) = Inl InvalidInput\<close>
    and post: \<open>pylint t p ((files w2)(p \<mapsto> c3)) = Inr r2\<close>
  shows \<open>process_file t p w =
    (Inr (),
     w2\<lparr>files := (files w2)(p \<mapsto> c3),
        log := log w2 @
          [Print ''Applying autoflake...'', Read p, Autoflake, Write p c2,
           Print ''Applying isort...'', Isort p,
           Print ''Applying black...'', Read p, Black,
           Print (''Warning: Black could not format '' @ p),
           Print ''Running final pylint...'', Pylint p, Print r2]\<rparr>)
    \<and> fst (main t [prog, p] w) = Inr ()
    \<and> exit_status (fst (main t [prog, p] w)) = 0\<close>
proof -
  have run: \<open>process_file t p w =
    (Inr (),
     w2\<lparr>files := (files w2)(p \<mapsto> c3),
        log := log w2 @
          [Print ''Applying autoflake...'', Read p, Autoflake, Write p c2,
           Print ''Applying isort...'', Isort p,
           Print ''Applying black...'', Read p, Black,
           Print (''Warning: Black could not format '' @ p),
           Print ''Running final pylint...'', Pylint p, Print r2]\<rparr>)\<close>
    using assms by (simp add: process_file_def prim_defs)
  from prompt_for_docstring_needs_file [OF doc] have \<open>isfile w p\<close>
    by (simp add: isfile_def)
  then have \<open>main t [prog, p] w = process_file t p w\<close>
    by (simp add: main_def)
  with run show ?thesis by simp
qed

theorem process_file_invalid_input_contained_witness:
  \<open>process_file demo_tools ''bad.py'' demo_world =
    (Inr (),
     demo_world\<lparr>files := (files demo_world)(''bad.py'' \<mapsto>
          ''"""Doc."""\<newline>x = $\<newline># stripped\<newline># sorted\<newline>''),
        log :=
          [Print ''Processing bad.py'', Print ''Running initial pylint...'',
           Pylint ''bad.py'', Print ''report on bad.py'', Read ''bad.py'',
           Print ''Applying autoflake...'', Read ''bad.py'', Autoflake,
           Write ''bad.py'' ''"""Doc."""\<newline>x = $\<newline># stripped\<newline>'',
           Print ''Applying isort...'', Isort ''bad.py'',
           Print ''Applying black...'', Read ''bad.py'', Black,
           Print ''Warning: Black could not format bad.py'',
           Print ''Running final pylint...'', Pylint ''bad.py'',
           Print ''report on bad.py'']\<rparr>)
   \<and> exit_status (fst (main demo_tools [''helpitnotsuck.py'', ''bad.py''] demo_world)) = 0\<close>
proof -
  let ?c = \<open>''"""Doc."""\<newline>x = $\<newline>''\<close>
  let ?w1 = \<open>demo_world\<lparr>log := log demo_world @
      [Print (''Processing '' @ ''bad.py''), Print ''Running initial pylint...'',
       Pylint ''bad.py'', Print ''report on bad.py'']\<rparr>\<close>
  have pre: \<open>pylint demo_tools ''bad.py'' (files demo_world) = Inr ''report on bad.py''\<close>
    by (simp add: demo_defs)
  have doc: \<open>prompt_for_docstring ''bad.py'' ?w1 = (Inr (), ?w1\<lparr>log := log ?w1 @ [Read ''bad.py'']\<rparr>)\<close>
    by (simp add: prompt_for_docstring_def prim_defs str_defs demo_defs)
  have held: \<open>files (?w1\<lparr>log := log ?w1 @ [Read ''bad.py'']\<rparr>) ''bad.py'' = Some ?c\<close>
    by (simp add: demo_defs)
  have strip: \<open>fix_code demo_tools (universal_newlines ?c) = Inr (?c @ ''# stripped\<newline>'')\<close>
    by (simp add: demo_defs)
  have sort: \<open>isort_file demo_tools ''bad.py'' (?c @ ''# stripped\<newline>'')
      = Inr (?c @ ''# stripped\<newline># sorted\<newline>'')\<close>
    by (simp add: demo_defs)
  have fmt: \<open>format_file_contents demo_tools
      (universal_newlines (?c @ ''# stripped\<newline># sorted\<newline>''))
      = Inl InvalidInput\<close>
    by (simp add: demo_defs)
  have post: \<open>pylint demo_tools ''bad.py''
      ((files (?w1\<lparr>log := log ?w1 @ [Read ''bad.py'']\<rparr>))
         (''bad.py'' \<mapsto> ?c @ ''# stripped\<newline># sorted\<newline>''))
      = Inr ''report on bad.py''\<close>
    by (simp add: demo_defs)
  from process_file_invalid_input_contained [OF pre doc held strip sort fmt post,
      of \<open>''helpitnotsuck.py''\<close>]
  show ?thesis by (simp add: demo_defs)
qed

text \<open>
  An exception of the stripper or of the sorter, and any exception of the formatter but
  \<^verbatim>\<open>InvalidInput\<close>, is not caught: it leaves the pipeline, and the file keeps
  what was last written to it.
\<close>

lemma process_file_stripper_crash:
  assumes pre: "pylint t p (files w) = Inr r1"
    and doc: "prompt_for_docstring p
        (w\<lparr>log := log w @ [Print (''Processing '' @ p), Print ''Running initial pylint...'',
                            Pylint p, Print r1]\<rparr>) = (Inr (), w2)"
    and held: "files w2 p = Some c1"
    and strip: "fix_code t (universal_newlines c1) = Inl e"
  shows "process_file t p w =
    (Inl e, w2\<lparr>log := log w2 @ [Print ''Applying autoflake...'', Read p, Autoflake]\<rparr>)"
  using assms by (simp add: process_file_def prim_defs)

lemma process_file_sorter_crash:
  assumes pre: "pylint t p (files w) = Inr r1"
    and doc: "prompt_for_docstring p
        (w\<lparr>log := log w @ [Print (''Processing '' @ p), Print ''Running initial pylint...'',
                            Pylint p, Print r1]\<rparr>) = (Inr (), w2)"
    and held: "files w2 p = Some c1"
    and strip: "fix_code t (universal_newlines c1) = Inr c2"
    and sort: "isort_file t p c2 = Inl e"
  shows "process_file t p w =
    (Inl e,
     w2\<lparr>files := (files w2)(p \<mapsto> c2),
        log := log w2 @
          [Print ''Applying autoflake...'', Read p, Autoflake, Write p c2,
           Print ''Applying isort...'', Isort p]\<rparr>)"
  using assms by (simp add: process_file_def prim_defs)

lemma process_file_formatter_crash:
  assumes pre: "pylint t p (files w) = Inr r1"
    and doc: "prompt_for_docstring p
        (w\<lparr>log := log w @ [Print (''Processing '' @ p), Print ''Running initial pylint...'',
                            Pylint p, Print r1]\<rparr>) = (Inr (), w2)"
    and held: "files w2 p = Some c1"
    and strip: "fix_code t (universal_newlines c1) = Inr c2"
    and sort: "isort_file t p c2 = Inr c3"
    and fmt: "format_file_contents t (universal_newlines c3) = Inl e" "e \<noteq> InvalidInput"
  shows "process_file t p w =
    (Inl e,
     w2\<lparr>files := (files w2)(p \<mapsto> c3),
        log := log w2 @
          [Print ''Applying autoflake...'', Read p, Autoflake, Write p c2,
           Print ''Applying isort...'', Isort p,
           Print ''Applying black...'', Read p, Black]\<rparr>)"
  using assms by (simp add: process_file_def prim_defs)

text \<open>So does an exception of the linter at the end; nothing written before is undone.\<close>

lemma process_file_post_lint_crash:
  assumes pre: "pylint t p (files w) = Inr r1"
    and doc: "prompt_for_docstring p
        (w\<lparr>log := log w @ [Print (''Processing '' @ p), Print ''Running initial pylint...'',
                            Pylint p, Print r1]\<rparr>) = (Inr (), w2)"
    and held: "files w2 p = Some c1"
    and strip: "fix_code t (universal_newlines c1) = Inr c2"
    and sort: "isort_file t p c2 = Inr c3"
    and fmt: "format_file_contents t (universal_newlines c3) = Inr c4"
    and post: "pylint t p ((files w2)(p \<mapsto> c4)) = Inl e"
  shows "process_file t p w =
    (Inl e,
     w2\<lparr>files := (files w2)(p \<mapsto> c4),
        log := log w2 @
          [Print ''Applying autoflake...'', Read p, Autoflake, Write p c2,
           Print ''Applying isort...'', Isort p,
           Print ''Applying black...'', Read p, Black, Write p c4,
           Print ''Running final pylint...'', Pylint p]\<rparr>)"
  using assms by (simp add: process_file_def prim_defs)

subsection \<open>The directory walk\<close>

text \<open>Loops, and the two nested loops of \<^verbatim>\<open>process_directory\<close> as one.\<close>

lemma seq_io_append:
  "seq_io (xs @ ys) w =
     (case seq_io xs w of (Inl e, w') \<Rightarrow> (Inl e, w') | (Inr u, w') \<Rightarrow> seq_io ys w')"
  by (induction xs arbitrary: w) (auto split: prod.splits sum.splits)

lemma for_each_Nil: "for_each body [] w = (Inr (), w)"
  by (simp add: for_each_def)

lemma for_each_Cons:
  "for_each body (x # xs) w =
     (case body x w of (Inl e, w') \<Rightarrow> (Inl e, w') | (Inr u, w') \<Rightarrow> for_each body xs w')"
  unfolding for_each_def by simp

lemma for_each_append:
  "for_each body (xs @ ys) w =
     (case for_each body xs w of (Inl e, w') \<Rightarrow> (Inl e, w') | (Inr u, w') \<Rightarrow> for_each body ys w')"
  unfolding for_each_def by (simp add: seq_io_append)

lemma for_each_filter:
  "for_each (\<lambda>x. if P x then g (f x) else return_io ()) xs w = for_each g (map f (filter P xs)) w"
  by (induction xs arbitrary: w)
    (auto simp: for_each_Nil for_each_Cons return_io_def split: prod.splits sum.splits)

lemma for_each_concat:
  "for_each (\<lambda>x. for_each g (k x)) xs w = for_each g (concat (map k xs)) w"
proof (induction xs arbitrary: w)
  case Nil
  show ?case by (simp add: for_each_Nil)
next
  case (Cons x xs)
  show ?case
  proof (cases "for_each g (k x) w")
    case (Pair r w')
    then show ?thesis
      by (cases r) (simp_all add: for_each_Cons for_each_append Cons.IH)
  qed
qed

lemma process_directory_flat:
  "process_directory t d w = for_each (process_file t) (py_files w d) w"
proof -
  have inner: "\<And>root fs.
      for_each (\<lambda>file. if endswith file ''.py'' then process_file t (path_join root file)
                        else return_io ()) fs
      = for_each (process_file t) (map (path_join root) (filter (\<lambda>file. endswith file ''.py'') fs))"
    by (rule ext) (rule for_each_filter)
  have "process_directory t d w =
      for_each (\<lambda>tr. for_each (process_file t)
          (case tr of (root, ds, fs) \<Rightarrow>
             map (path_join root) (filter (\<lambda>file. endswith file ''.py'') fs)))
        (os_walk w d) w"
    unfolding process_directory_def inner
    by (rule arg_cong [where f = "\<lambda>b. for_each b (os_walk w d) w"]) (auto simp: fun_eq_iff)
  then show ?thesis
    by (simp add: for_each_concat py_files_def)
qed

text \<open>Every step of the pipeline on \<open>p\<close> is confined to \<open>p\<close>.\<close>

lemma keeps_refl: "keeps S w w"
  by (simp add: keeps_def)

lemma keeps_trans: "keeps S w w1 \<Longrightarrow> keeps S w1 w2 \<Longrightarrow> keeps S w w2"
proof -
  assume a: "keeps S w w1" and b: "keeps S w1 w2"
  from a obtain evs where evs: "log w1 = log w @ evs" "\<forall>e\<in>set evs. accessed e \<subseteq> S"
    unfolding keeps_def by blast
  from b obtain evs' where evs': "log w2 = log w1 @ evs'" "\<forall>e\<in>set evs'. accessed e \<subseteq> S"
    unfolding keeps_def by blast
  have "log w2 = log w @ (evs @ evs') \<and> (\<forall>e\<in>set (evs @ evs'). accessed e \<subseteq> S)"
    using evs evs' by auto
  then have "\<exists>evs. log w2 = log w @ evs \<and> (\<forall>e\<in>set evs. accessed e \<subseteq> S)"
    by blast
  with a b show ?thesis
    unfolding keeps_def by simp
qed

lemma keeps_mono: "keeps S w w' \<Longrightarrow> S \<subseteq> T \<Longrightarrow> keeps T w w'"
  unfolding keeps_def by (meson subset_iff)

lemma keeps_emit: "accessed e \<subseteq> S \<Longrightarrow> keeps S w (emit e w)"
  by (simp add: keeps_def emit_def)

lemma confined_mono: "confined S m \<Longrightarrow> S \<subseteq> T \<Longrightarrow> confined T m"
  unfolding confined_def by (blast intro: keeps_mono)

lemma confined_bind:
  assumes "confined S m" and "\<And>v. confined S (f v)"
  shows "confined S (bind_io m f)"
  unfolding confined_def
proof
  fix w
  obtain r w1 where m: "m w = (r, w1)" by (cases "m w")
  from assms(1) m have 1: "keeps S w w1"
    unfolding confined_def by (metis snd_conv)
  show "keeps S w (snd (bind_io m f w))"
  proof (cases r)
    case (Inl e)
    with m 1 show ?thesis by (simp add: bind_io_def)
  next
    case (Inr v)
    from assms(2) [of v] have "keeps S w1 (snd (f v w1))"
      unfolding confined_def by blast
    with 1 have "keeps S w (snd (f v w1))" by (rule keeps_trans)
    with Inr m show ?thesis by (simp add: bind_io_def)
  qed
qed

lemma confined_return: "confined S (return_io v)"
  by (simp add: confined_def return_io_def keeps_refl)

lemma confined_seq: "(\<And>m. m \<in> set ms \<Longrightarrow> confined S m) \<Longrightarrow> confined S (seq_io ms)"
proof (induction ms)
  case Nil
  show ?case by (simp add: confined_def keeps_refl)
next
  case (Cons m ms)
  have eq: "seq_io (m # ms) = bind_io m (\<lambda>_. seq_io ms)"
    by (auto simp: fun_eq_iff bind_io_def split: prod.splits sum.splits)
  have "confined S m" and "confined S (seq_io ms)"
    using Cons by simp_all
  then show ?case
    unfolding eq by (intro confined_bind)
qed

lemma confined_for_each:
  "(\<And>x. x \<in> set xs \<Longrightarrow> confined S (body x)) \<Longrightarrow> confined S (for_each body xs)"
  unfolding for_each_def by (rule confined_seq) auto

lemma confined_try:
  assumes "confined S body" and "confined S handler"
  shows "confined S (try_except body exc handler)"
  unfolding confined_def
proof
  fix w
  obtain r w1 where b: "body w = (r, w1)" by (cases "body w")
  from assms(1) b have 1: "keeps S w w1"
    unfolding confined_def by (metis snd_conv)
  from assms(2) have "keeps S w1 (snd (handler w1))"
    unfolding confined_def by blast
  with 1 have 2: "keeps S w (snd (handler w1))" by (rule keeps_trans)
  from b 1 2 show "keeps S w (snd (try_except body exc handler w))"
    by (cases r) (simp_all add: try_except_def)
qed

lemma confined_print: "confined S (py_print s)"
  by (simp add: confined_def py_print_def keeps_emit)

lemma confined_input: "confined S py_input"
  by (auto simp: confined_def py_input_def keeps_def emit_def split: list.splits)

lemma confined_read: "p \<in> S \<Longrightarrow> confined S (read_file p)"
  by (auto simp: confined_def read_file_def keeps_def emit_def split: option.splits)

lemma confined_write: "p \<in> S \<Longrightarrow> confined S (write_file p c)"
  by (auto simp: confined_def write_file_def keeps_def emit_def)

lemma confined_pylint: "p \<in> S \<Longrightarrow> confined S (run_pylint t p)"
  by (auto simp: confined_def run_pylint_def lint_Run_def keeps_def emit_def)

lemma confined_autoflake: "confined S (autoflake_fix_code t c)"
  by (auto simp: confined_def autoflake_fix_code_def keeps_def emit_def)

lemma confined_isort: "p \<in> S \<Longrightarrow> confined S (isort_dot_file t p)"
  by (auto simp: confined_def isort_dot_file_def keeps_def emit_def split: option.splits sum.splits)

lemma confined_black: "confined S (black_format_file_contents t c)"
  by (auto simp: confined_def black_format_file_contents_def keeps_def emit_def)

lemmas confined_intros = confined_bind confined_seq confined_try confined_return
  confined_print confined_input confined_read confined_write confined_pylint
  confined_autoflake confined_isort confined_black

lemma confined_prompt: "confined {p} (prompt_for_docstring p)"
  unfolding prompt_for_docstring_def
  by (intro confined_bind confined_read) (auto intro!: confined_intros)

lemma confined_process_file: "confined {p} (process_file t p)"
  unfolding process_file_def
  by (rule confined_seq) (auto intro!: confined_intros confined_prompt)

lemma confined_files: "confined (set ps) (for_each (process_file t) ps)"
  by (rule confined_for_each) (auto intro: confined_mono [OF confined_process_file])

lemma linted_append: "linted (xs @ ys) = linted xs @ linted ys"
  by (induction xs rule: linted.induct) simp_all

lemma process_file_linted:
  "process_file t p w = (Inr (), w') \<Longrightarrow> linted (log w') = linted (log w) @ [p, p]"
  by (auto simp add: process_file_def prompt_for_docstring_def prim_defs linted_append
      split: sum.splits option.splits prod.splits list.splits if_splits)

lemma for_each_linted:
  "for_each (process_file t) ps w = (Inr (), w') \<Longrightarrow>
   linted (log w') = linted (log w) @ concat (map (\<lambda>p. [p, p]) ps)"
proof (induction ps arbitrary: w)
  case Nil
  then show ?case by (simp add: for_each_Nil)
next
  case (Cons p ps)
  obtain r w1 where 1: "process_file t p w = (r, w1)" by (cases "process_file t p w")
  with Cons.prems have r: "r = Inr ()" and 2: "for_each (process_file t) ps w1 = (Inr (), w')"
    by (auto simp: for_each_Cons split: sum.splits)
  from process_file_linted [OF 1 [unfolded r]] Cons.IH [OF 2]
  show ?case by simp
qed

lemma endswith_path_join: "endswith f suf \<Longrightarrow> endswith (path_join root f) suf"
proof -
  assume a: "endswith f suf"
  obtain pre where "path_join root f = pre @ f"
    unfolding path_join_def by (metis append_Nil append_assoc)
  with a show ?thesis by (auto simp: endswith_def)
qed

lemma py_files_endswith: "q \<in> set (py_files w d) \<Longrightarrow> endswith q ''.py''"
  by (auto simp: py_files_def endswith_path_join)

lemma endswith_iff_suffix: "endswith s suf \<longleftrightarrow> suffix suf s"
proof
  assume "endswith s suf"
  then have "s = take (length s - length suf) s @ suf"
    by (auto simp: endswith_def) (metis append_take_drop_id)
  then show "suffix suf s" unfolding suffix_def by blast
next
  assume "suffix suf s"
  then show "endswith s suf" by (auto simp: suffix_def endswith_def)
qed

lemma plain_name_not_py:
  assumes "\<not> endswith file ''.py''" and "file \<noteq> []" and "CHR ''/'' \<notin> set file"
  shows "\<not> endswith (path_join root file) ''.py''"
proof
  assume py: "endswith (path_join root file) ''.py''"
  from assms(2,3) have ns: "\<not> startswith file ''/''"
    by (cases "file") (auto simp: startswith_def)
  show False
  proof (cases "root = []")
    case True
    with ns py assms(1) show False by (simp add: path_join_def)
  next
    case False
    have "\<exists>pre. path_join root file = pre @ CHR ''/'' # file"
    proof (cases "endswith root ''/''")
      case True
      then obtain pre where "root = pre @ ''/''"
        by (auto simp: endswith_iff_suffix suffix_def)
      with True ns show ?thesis by (simp add: path_join_def)
    next
      case False
      with ns \<open>root \<noteq> []\<close> show ?thesis by (simp add: path_join_def)
    qed
    then obtain pre where pre: "path_join root file = pre @ CHR ''/'' # file" by blast
    from py obtain ys where "pre @ CHR ''/'' # file = ys @ ''.py''"
      by (auto simp: endswith_iff_suffix suffix_def pre)
    then obtain us where "pre = ys @ us \<and> us @ CHR ''/'' # file = ''.py''
        \<or> pre @ us = ys \<and> CHR ''/'' # file = us @ ''.py''"
      by (auto simp: append_eq_append_conv2)
    then show False
    proof
      assume "pre = ys @ us \<and> us @ CHR ''/'' # file = ''.py''"
      then have "CHR ''/'' \<in> set ''.py''" by (metis in_set_conv_decomp)
      then show False by simp
    next
      assume a: "pre @ us = ys \<and> CHR ''/'' # file = us @ ''.py''"
      show False
      proof (cases us)
        case Nil
        with a show False by simp
      next
        case (Cons u us')
        with a have "file = us' @ ''.py''" by simp
        with assms(1) show False by (simp add: endswith_iff_suffix suffix_def)
      qed
    qed
  qed
qed


text \<open>
  C7. On a directory, the run is the per-file pipeline on the files of \<open>py_files\<close>, one
  after the other in the order of the traversal, and on nothing else. Every path of
  \<open>py_files\<close> ends in \<^verbatim>\<open>.py\<close>, and no entry of the tree whose name does not end in
  \<^verbatim>\<open>.py\<close> is among them. A file that is not among them holds after the run what it held
  before, and no event of the run accesses it: it is neither read nor written, by the
  script or by a tool called on it. When the run returns, the linter has been run on
  exactly the files of \<open>py_files\<close>, twice each (before and after), in that order.
\<close>

theorem process_directory_exactly_py_files:
  "process_directory t d w = for_each (process_file t) (py_files w d) w
   \<and> (\<forall>q\<in>set (py_files w d). endswith q ''.py'')
   \<and> (\<forall>(root, ds, fs)\<in>set (os_walk w d). \<forall>file\<in>set fs.
         file \<noteq> [] \<and> CHR ''/'' \<notin> set file \<and> \<not> endswith file ''.py''
         \<longrightarrow> path_join root file \<notin> set (py_files w d))
   \<and> (\<forall>q. q \<notin> set (py_files w d) \<longrightarrow> files (snd (process_directory t d w)) q = files w q)
   \<and> (\<exists>evs. log (snd (process_directory t d w)) = log w @ evs
         \<and> (\<forall>e\<in>set evs. accessed e \<subseteq> set (py_files w d))
         \<and> (fst (process_directory t d w) = Inr ()
              \<longrightarrow> linted evs = concat (map (\<lambda>p. [p, p]) (py_files w d))))"
proof -
  let ?ps = "py_files w d"
  let ?w' = "snd (for_each (process_file t) ?ps w)"
  have flat: "process_directory t d w = for_each (process_file t) ?ps w"
    by (rule process_directory_flat)
  have k: "keeps (set ?ps) w ?w'"
    using confined_files [of ?ps t] unfolding confined_def by blast
  then obtain evs where evs: "log ?w' = log w @ evs" "\<forall>e\<in>set evs. accessed e \<subseteq> set ?ps"
    unfolding keeps_def by blast
  have "linted evs = concat (map (\<lambda>p. [p, p]) ?ps)"
    if "fst (for_each (process_file t) ?ps w) = Inr ()"
  proof -
    from that have "for_each (process_file t) ?ps w = (Inr (), ?w')"
      by (metis prod.collapse)
    from for_each_linted [OF this] evs(1) show ?thesis
      by (simp add: linted_append)
  qed
  with evs have "\<exists>evs. log ?w' = log w @ evs
         \<and> (\<forall>e\<in>set evs. accessed e \<subseteq> set ?ps)
         \<and> (fst (for_each (process_file t) ?ps w) = Inr ()
              \<longrightarrow> linted evs = concat (map (\<lambda>p. [p, p]) ?ps))"
    by blast
  moreover from k have "\<forall>q. q \<notin> set ?ps \<longrightarrow> files ?w' q = files w q"
    unfolding keeps_def by blast
  moreover have "\<forall>q\<in>set ?ps. endswith q ''.py''"
    by (simp add: py_files_endswith)
  moreover have "\<forall>(root, ds, fs)\<in>set (os_walk w d). \<forall>file\<in>set fs.
         file \<noteq> [] \<and> CHR ''/'' \<notin> set file \<and> \<not> endswith file ''.py''
         \<longrightarrow> path_join root file \<notin> set ?ps"
    using plain_name_not_py py_files_endswith by blast
  ultimately show ?thesis
    unfolding flat by blast
qed

theorem process_directory_exactly_py_files_witness:
  \<open>py_files tree_world ''pkg'' = [''pkg/a.py'', ''pkg/sub/b.py'', ''pkg/sub/deep/c.py'']
   \<and> fst (process_directory demo_tools ''pkg'' tree_world) = Inr ()
   \<and> files (snd (process_directory demo_tools ''pkg'' tree_world)) ''pkg/notes.txt''
       = Some ''plain\<newline>''
   \<and> files (snd (process_directory demo_tools ''pkg'' tree_world)) ''pkg/sub/deep/c.py''
       = Some ''"""C."""\<newline># stripped\<newline># sorted\<newline># formatted\<newline>''
   \<and> linted (log (snd (process_directory demo_tools ''pkg'' tree_world)))
       = [''pkg/a.py'', ''pkg/a.py'', ''pkg/sub/b.py'', ''pkg/sub/b.py'',
          ''pkg/sub/deep/c.py'', ''pkg/sub/deep/c.py'']\<close>
proof -
  have ps: "py_files tree_world ''pkg'' = [''pkg/a.py'', ''pkg/sub/b.py'', ''pkg/sub/deep/c.py'']"
    by (simp add: py_files_def os_walk_def tree_world_def path_join_def str_defs)
  from process_directory_exactly_py_files [of demo_tools "''pkg''" tree_world]
  have run: "process_directory demo_tools ''pkg'' tree_world
      = for_each (process_file demo_tools) (py_files tree_world ''pkg'') tree_world"
    and rest: "\<forall>q. q \<notin> set (py_files tree_world ''pkg'') \<longrightarrow>
        files (snd (process_directory demo_tools ''pkg'' tree_world)) q = files tree_world q"
    by blast+
  from rest have "files (snd (process_directory demo_tools ''pkg'' tree_world)) ''pkg/notes.txt''
      = files tree_world ''pkg/notes.txt''"
    by (simp add: ps)
  then have untouched: \<open>files (snd (process_directory demo_tools ''pkg'' tree_world)) ''pkg/notes.txt''
      = Some ''plain\<newline>''\<close>
    by (simp add: tree_world_def)
  show ?thesis
    unfolding untouched unfolding run ps
    by (simp add: run_defs tree_world_def)
qed


text \<open>
  C8. On a directory \<open>d\<close>, when the pipeline has returned for the files \<open>ps\<close> and an
  exception \<open>e\<close> leaves the pipeline of the next file \<open>p\<close> in the state \<open>w2\<close>, the walk
  ends there: \<open>process_directory\<close> and \<open>main\<close> raise \<open>e\<close>, and the state they leave is
  \<open>w2\<close> itself. So none of the files \<open>qs\<close> that follow is processed, and everything
  written up to the exception is still on disk.
\<close>

theorem process_directory_halts_on_exception:
  assumes "files w d = None" and "dirs w d = Some tree"
    and "py_files w d = ps @ p # qs"
    and "for_each (process_file t) ps w = (Inr (), w1)"
    and "process_file t p w1 = (Inl e, w2)"
  shows "process_directory t d w = (Inl e, w2) \<and> main t [prog, d] w = (Inl e, w2)"
proof -
  have "process_directory t d w = (Inl e, w2)"
    using assms(3-5) by (simp add: process_directory_flat for_each_append for_each_Cons)
  moreover have "main t [prog, d] w = process_directory t d w"
    using assms(1,2) by (simp add: main_def isfile_def isdir_def)
  ultimately show ?thesis by simp
qed


theorem process_directory_halts_on_exception_witness:
  \<open>fst (process_directory demo_tools ''proj'' crash_world) = Inl (ToolError ''NothingChanged'')
   \<and> files (snd (process_directory demo_tools ''proj'' crash_world)) ''proj/one.py''
       = Some ''"""One."""\<newline># stripped\<newline># sorted\<newline># formatted\<newline>''
   \<and> files (snd (process_directory demo_tools ''proj'' crash_world)) ''proj/two.py''
       = Some ''"""Two!"""\<newline># stripped\<newline># sorted\<newline>''
   \<and> files (snd (process_directory demo_tools ''proj'' crash_world)) ''proj/three.py''
       = Some ''"""Three."""\<newline>''
   \<and> linted (log (snd (process_directory demo_tools ''proj'' crash_world)))
       = [''proj/one.py'', ''proj/one.py'', ''proj/two.py'']
   \<and> exit_status (fst (main demo_tools [''helpitnotsuck.py'', ''proj''] crash_world)) = 1\<close>
proof -
  let ?w1 = "snd (for_each (process_file demo_tools) [''proj/one.py''] crash_world)"
  let ?w2 = "snd (process_file demo_tools ''proj/two.py'' ?w1)"
  have f: "files crash_world ''proj'' = None"
    and d: "dirs crash_world ''proj'' = Some (DirTree [''one.py'', ''two.py'', ''three.py''] [])"
    by (simp_all add: crash_world_def)
  have ps: "py_files crash_world ''proj'' = [''proj/one.py''] @ ''proj/two.py'' # [''proj/three.py'']"
    by (simp add: py_files_def os_walk_def crash_world_def path_join_def str_defs)
  have "fst (for_each (process_file demo_tools) [''proj/one.py''] crash_world) = Inr ()"
    by (simp add: run_defs crash_world_def)
  then have one: "for_each (process_file demo_tools) [''proj/one.py''] crash_world = (Inr (), ?w1)"
    by (metis prod.collapse)
  have "fst (process_file demo_tools ''proj/two.py'' ?w1) = Inl (ToolError ''NothingChanged'')"
    by (simp add: run_defs crash_world_def)
  then have two: "process_file demo_tools ''proj/two.py'' ?w1 = (Inl (ToolError ''NothingChanged''), ?w2)"
    by (metis prod.collapse)
  from process_directory_halts_on_exception [OF f d ps one two, of "''helpitnotsuck.py''"]
  have "process_directory demo_tools ''proj'' crash_world = (Inl (ToolError ''NothingChanged''), ?w2)"
    and "main demo_tools [''helpitnotsuck.py'', ''proj''] crash_world = (Inl (ToolError ''NothingChanged''), ?w2)"
    by simp_all
  then show ?thesis
    by (simp add: run_defs crash_world_def)
qed

end
